theory Spec2Isabelle
  imports Main
begin

section \<open>Header mappings\<close>

text \<open>
  \<^verbatim>\<open>http.Header\<close> is \<^verbatim>\<open>map[string][]string\<close>: a key has one ordered sequence of values.
  A Go map is a reference: copying a struct that holds one copies the reference, not the
  entries. Map objects therefore live in a store, and a struct field of map type holds an
  address into it.
\<close>

type_synonym header = "string \<rightharpoonup> string list"
type_synonym addr = nat
type_synonym store = "addr \<Rightarrow> header"

subsection \<open>The library's canonical key and \<^verbatim>\<open>Header.Add\<close>\<close>

text \<open>
  \<^verbatim>\<open>http.CanonicalHeaderKey\<close>, as the standard library documents it: the first letter and
  every letter after a hyphen become upper case, every other letter lower case; a key
  holding a space or a byte that cannot occur in a header field name is returned as it is.
\<close>

definition isLower :: "char \<Rightarrow> bool" where
  "isLower c \<longleftrightarrow> (97::nat) \<le> of_char c \<and> of_char c \<le> (122::nat)"

definition isUpper :: "char \<Rightarrow> bool" where
  "isUpper c \<longleftrightarrow> (65::nat) \<le> of_char c \<and> of_char c \<le> (90::nat)"

definition isDigit :: "char \<Rightarrow> bool" where
  "isDigit c \<longleftrightarrow> (48::nat) \<le> of_char c \<and> of_char c \<le> (57::nat)"

definition validHeaderFieldByte :: "char \<Rightarrow> bool" where
  "validHeaderFieldByte c \<longleftrightarrow>
     isLower c \<or> isUpper c \<or> isDigit c \<or>
     c \<in> set (''!#$%&*+-.^_|~'' @ [char_of (39::nat), char_of (96::nat)])"

fun canonicalMIMEHeaderKey :: "bool \<Rightarrow> string \<Rightarrow> string" where
  "canonicalMIMEHeaderKey upper [] = []"
| "canonicalMIMEHeaderKey upper (c # cs) =
     (let c' = (if upper \<and> isLower c then char_of (of_char c - (32::nat))
                else if \<not> upper \<and> isUpper c then char_of (of_char c + (32::nat))
                else c)
      in c' # canonicalMIMEHeaderKey (c' = CHR ''-'') cs)"

definition CanonicalHeaderKey :: "string \<Rightarrow> string" where
  "CanonicalHeaderKey s =
     (if list_all validHeaderFieldByte s then canonicalMIMEHeaderKey True s else s)"

text \<open>
  \<^verbatim>\<open>Header.Add(key, value)\<close> appends the value to the sequence stored under the canonical
  form of the key; a key that is absent starts from the empty sequence.
\<close>

definition Add :: "header \<Rightarrow> string \<Rightarrow> string \<Rightarrow> header" where
  "Add hm k v =
     (let ck = CanonicalHeaderKey k
      in hm(ck \<mapsto> (case hm ck of None \<Rightarrow> [] | Some vs \<Rightarrow> vs) @ [v]))"

section \<open>The string set\<close>

text \<open>\<^verbatim>\<open>type set struct { entries map[string]struct{} }\<close> with \<^verbatim>\<open>newSet\<close>, \<^verbatim>\<open>has\<close>, \<^verbatim>\<open>insert\<close>.\<close>

record strset =
  entries :: "string \<rightharpoonup> unit"

definition newSet :: strset where
  "newSet = \<lparr>entries = Map.empty\<rparr>"

definition has :: "strset \<Rightarrow> string \<Rightarrow> bool" where
  "has s val \<longleftrightarrow> entries s val \<noteq> None"

text \<open>\<^verbatim>\<open>insert\<close> returns whether the value was new, and the set after the call.\<close>

definition insert_set :: "strset \<Rightarrow> string \<Rightarrow> bool \<times> strset" where
  "insert_set s val =
     (if has s val then (False, s)
      else (True, s\<lparr>entries := (entries s)(val \<mapsto> ())\<rparr>))"

section \<open>The header filter\<close>

record headerEntry =
  key :: string
  values' :: "string list"

text \<open>
  An unbuffered channel of header entries. A send blocks until the entry is received:
  \<open>slot\<close> holds the entry a blocked sender offers, and the sender takes no further
  step while the slot is full.
\<close>

record chan =
  slot :: "headerEntry option"
  closed :: bool

definition make_chan :: chan where
  "make_chan = \<lparr>slot = None, closed = False\<rparr>"

text \<open>
  The goroutine of \<^verbatim>\<open>withoutHeaders\<close>, one loop step at a time, on its input and output
  channel: it receives an entry, drops it when its key is in \<open>unwanted\<close> and sends it on
  otherwise; when the input is closed and empty it closes the output and is done.
\<close>

definition withoutHeaders :: "strset \<Rightarrow> chan \<times> chan \<Rightarrow> chan \<times> chan" where
  "withoutHeaders unwanted io =
     (let inp = fst io; out = snd io
      in if closed out then io
         else case slot inp of
                None \<Rightarrow> if closed inp then (inp, out\<lparr>closed := True\<rparr>) else io
              | Some entry \<Rightarrow>
                  if \<not> has unwanted (key entry)
                  then (if slot out = None
                        then (inp\<lparr>slot := None\<rparr>, out\<lparr>slot := Some entry\<rparr>)
                        else io)
                  else (inp\<lparr>slot := None\<rparr>, out))"

record response =
  StatusCode :: int
  Header :: addr
  Body :: string

text \<open>
  \<^verbatim>\<open>filterResponse\<close> starts three goroutines and returns. The state they share:
  the store of map objects, the two struct variables the closures capture
  (\<^verbatim>\<open>response\<close>, the parameter, and \<^verbatim>\<open>filteredRes\<close>, its copy), the denied keys, the two
  channels, the keys the \<^verbatim>\<open>range\<close> loop over \<^verbatim>\<open>response.Header\<close> has yet to visit, and the
  entry \<^verbatim>\<open>h\<close> whose values the last goroutine is adding.
\<close>

record pipeline =
  maps :: store
  response_var :: response
  filteredRes_var :: response
  unwantedHeaders :: strset
  range_keys :: "string list"
  headerCh :: chan
  filteredHeaderCh :: chan
  cur_h :: "headerEntry option"
  consumer_done :: bool

datatype goroutine = Producer | Filter | Consumer

text \<open>
  One step of one goroutine; a goroutine that is blocked or has exited leaves the state
  as it is.
  \<^item> \<open>Producer\<close>: \<^verbatim>\<open>for k, vals := range response.Header { headerCh <- headerEntry{...} }\<close>,
    then the deferred \<^verbatim>\<open>close(headerCh)\<close>. The values are those the map holds when the
    loop reaches the key.
  \<^item> \<open>Filter\<close>: the goroutine of \<^verbatim>\<open>withoutHeaders(headerCh, *unwantedHeaders)\<close>.
  \<^item> \<open>Consumer\<close>: \<^verbatim>\<open>for h := range filteredHeaderCh { for _, v := range h.values {
    filteredRes.Header.Add(h.key, v) } }\<close>.
\<close>

fun step :: "goroutine \<Rightarrow> pipeline \<Rightarrow> pipeline" where
  "step Producer s =
     (case slot (headerCh s) of
        Some offered \<Rightarrow> s
      | None \<Rightarrow>
          if closed (headerCh s) then s
          else case range_keys s of
                 [] \<Rightarrow> s\<lparr>headerCh := (headerCh s)\<lparr>closed := True\<rparr>\<rparr>
               | k # ks \<Rightarrow>
                   (case maps s (Header (response_var s)) k of
                      None \<Rightarrow> s\<lparr>range_keys := ks\<rparr>
                    | Some vals \<Rightarrow>
                        s\<lparr>range_keys := ks,
                          headerCh := (headerCh s)
                            \<lparr>slot := Some \<lparr>key = CanonicalHeaderKey k, values' = vals\<rparr>\<rparr>\<rparr>))"
| "step Filter s =
     (let io = withoutHeaders (unwantedHeaders s) (headerCh s, filteredHeaderCh s)
      in s\<lparr>headerCh := fst io, filteredHeaderCh := snd io\<rparr>)"
| "step Consumer s =
     (case cur_h s of
        Some e \<Rightarrow>
          (case values' e of
             [] \<Rightarrow> s\<lparr>cur_h := None\<rparr>
           | v # vs \<Rightarrow>
               s\<lparr>maps := (maps s)
                    (Header (filteredRes_var s) :=
                       Add (maps s (Header (filteredRes_var s))) (key e) v),
                 cur_h := Some (e\<lparr>values' := vs\<rparr>)\<rparr>)
      | None \<Rightarrow>
          (case slot (filteredHeaderCh s) of
             Some e \<Rightarrow> s\<lparr>filteredHeaderCh := (filteredHeaderCh s)\<lparr>slot := None\<rparr>,
                        cur_h := Some e\<rparr>
           | None \<Rightarrow> if closed (filteredHeaderCh s) then s\<lparr>consumer_done := True\<rparr> else s))"

text \<open>A schedule is the order in which the goroutines take their steps.\<close>

fun exec :: "goroutine list \<Rightarrow> pipeline \<Rightarrow> pipeline" where
  "exec [] s = s"
| "exec (g # gs) s = exec gs (step g s)"

text \<open>
  \<^verbatim>\<open>filterResponse(response)\<close>: copy the struct, build the denied set \<open>{Cookie}\<close>, start
  the goroutines, return the copy. The result is the returned struct together with the
  goroutines as they stand at the \<^verbatim>\<open>return\<close>, where none has been waited for. Go leaves
  the iteration order of a map open; \<open>order\<close> is the order this run's \<^verbatim>\<open>range\<close> takes.
\<close>

definition filterResponse :: "store \<Rightarrow> string list \<Rightarrow> response \<Rightarrow> response \<times> pipeline" where
  "filterResponse st order response =
     (let filteredRes = response;
          unwanted = snd (insert_set newSet ''Cookie'')
      in (filteredRes,
          \<lparr>maps = st, response_var = response, filteredRes_var = filteredRes,
           unwantedHeaders = unwanted, range_keys = order,
           headerCh = make_chan, filteredHeaderCh = make_chan,
           cur_h = None, consumer_done = False\<rparr>))"

text \<open>
  The header mapping a holder of the returned struct reads once the goroutines have
  taken the steps of \<open>sched\<close>.
\<close>

definition filtered_header :: "store \<Rightarrow> string list \<Rightarrow> response \<Rightarrow> goroutine list \<Rightarrow> header" where
  "filtered_header st order response sched =
     (let res = filterResponse st order response
      in maps (exec sched (snd res)) (Header (fst res)))"

text \<open>The pipeline has drained when the last goroutine has left its loop.\<close>

definition drained :: "pipeline \<Rightarrow> bool" where
  "drained s \<longleftrightarrow> consumer_done s"

section \<open>The client's response writer\<close>

text \<open>
  \<^verbatim>\<open>http.ResponseWriter\<close> as the handlers use it. \<^verbatim>\<open>WriteHeader\<close> sends the status line
  with the headers of \<^verbatim>\<open>w.Header()\<close> as they are at that moment; only one header can be
  sent for a response, so a later \<^verbatim>\<open>WriteHeader\<close> changes nothing (the server logs it as
  superfluous). A \<^verbatim>\<open>Write\<close> before any \<^verbatim>\<open>WriteHeader\<close> sends status 200 first.
\<close>

record ResponseWriter =
  w_Header :: header
  w_sent :: "(int \<times> header) option"
  w_body :: string

definition StatusOK :: int where "StatusOK = 200"
definition StatusInternalServerError :: int where "StatusInternalServerError = 500"
definition StatusServiceUnavailable :: int where "StatusServiceUnavailable = 503"

definition WriteHeader :: "ResponseWriter \<Rightarrow> int \<Rightarrow> ResponseWriter" where
  "WriteHeader w code =
     (case w_sent w of
        Some sent \<Rightarrow> w
      | None \<Rightarrow> w\<lparr>w_sent := Some (code, w_Header w)\<rparr>)"

definition Write :: "ResponseWriter \<Rightarrow> string \<Rightarrow> ResponseWriter" where
  "Write w bs =
     (let w1 = (if w_sent w = None then WriteHeader w StatusOK else w)
      in w1\<lparr>w_body := w_body w1 @ bs\<rparr>)"

definition Del :: "header \<Rightarrow> string \<Rightarrow> header" where
  "Del hm k = hm(CanonicalHeaderKey k := None)"

definition Set :: "header \<Rightarrow> string \<Rightarrow> string \<Rightarrow> header" where
  "Set hm k v = hm(CanonicalHeaderKey k \<mapsto> [v])"

text \<open>
  \<^verbatim>\<open>http.Error(w, error, code)\<close>: set the plain-text headers, call \<^verbatim>\<open>WriteHeader(code)\<close>,
  print the message and a newline to \<open>w\<close>.
\<close>

definition Error :: "ResponseWriter \<Rightarrow> string \<Rightarrow> int \<Rightarrow> ResponseWriter" where
  "Error w msg code =
     (let hm = Del (w_Header w) ''Content-Length'';
          hm = Set hm ''Content-Type'' ''text/plain; charset=utf-8'';
          hm = Set hm ''X-Content-Type-Options'' ''nosniff'';
          w1 = WriteHeader (w\<lparr>w_Header := hm\<rparr>) code
      in Write w1 (msg @ [CHR 0x0A]))"

text \<open>The status code the client has received, if any.\<close>

definition client_status :: "ResponseWriter \<Rightarrow> int option" where
  "client_status w = map_option fst (w_sent w)"

text \<open>The values the client has received for a header key, if any.\<close>

definition client_values :: "ResponseWriter \<Rightarrow> string \<Rightarrow> string list option" where
  "client_values w k = (case w_sent w of None \<Rightarrow> None | Some sent \<Rightarrow> snd sent k)"

section \<open>Byte copy between two sockets\<close>

text \<open>
  A source of bytes is the sequence of results of its \<^verbatim>\<open>Read\<close> calls: the bytes read and
  \<open>More\<close> (no error), \<open>EOF\<close> or \<open>ReadErr\<close>. A destination is the sequence of results of
  its \<^verbatim>\<open>Write\<close> calls: \<open>None\<close> when the whole chunk was written, \<open>Some n\<close> when the write
  failed after \<open>n\<close> bytes.
\<close>

datatype rstatus = More | EOF | ReadErr

type_synonym reader = "nat \<Rightarrow> string \<times> rstatus"
type_synonym writer = "nat \<Rightarrow> nat option"

text \<open>
  The loop of \<^verbatim>\<open>io.Copy(dst, src)\<close>: read; write what was read, stopping on a failed write;
  stop when the read reported end-of-stream or an error. A source that never ends keeps
  the loop running: the result is then \<open>None\<close>. The result is the chunks written.
\<close>

partial_function (option) copy_from :: "reader \<Rightarrow> writer \<Rightarrow> nat \<Rightarrow> string list \<Rightarrow> string list option" where
  "copy_from src dst i written =
     (case src i of
        (buf, er) \<Rightarrow>
          (case (if buf = [] then None else dst i) of
             Some n \<Rightarrow> Some (written @ [take n buf])
           | None \<Rightarrow>
               let written' = (if buf \<noteq> [] then written @ [buf] else written)
               in if er \<noteq> More then Some written'
                  else copy_from src dst (Suc i) written'))"

declare copy_from.simps [code]

definition io_Copy :: "reader \<Rightarrow> writer \<Rightarrow> string list option" where
  "io_Copy src dst = copy_from src dst 0 []"

datatype conn = clientConn | destConn

datatype io_event = Wrote conn string | Closed conn

text \<open>
  \<^verbatim>\<open>transfer(from, to)\<close>: \<^verbatim>\<open>io.Copy(to, from)\<close>, then the deferred calls in reverse order of
  their \<^verbatim>\<open>defer\<close>: \<^verbatim>\<open>from.Close()\<close>, \<^verbatim>\<open>to.Close()\<close>.
\<close>

definition transfer :: "conn \<Rightarrow> conn \<Rightarrow> reader \<Rightarrow> writer \<Rightarrow> io_event list option" where
  "transfer from to src dst =
     (case io_Copy src dst of
        None \<Rightarrow> None
      | Some chunks \<Rightarrow> Some (map (Wrote to) chunks @ [Closed from, Closed to]))"

section \<open>The handlers\<close>

record config =
  logRequestBody :: bool
  logResponseBody :: bool
  address :: string

definition defaultConfig :: config where
  "defaultConfig = \<lparr>logRequestBody = False, logResponseBody = False, address = '':8888''\<rparr>"

definition TIMEOUT_MS :: int where "TIMEOUT_MS = 5000"

text \<open>\<^verbatim>\<open>time.Millisecond\<close>: a \<^verbatim>\<open>Duration\<close> counts nanoseconds.\<close>

definition Millisecond :: int where "Millisecond = 1000000"

record request =
  Method :: string
  Host :: string

text \<open>
  What a handler asks of its surroundings, in the order of the calls; the text written to
  the log is left out. \<open>DumpRequest b\<close> and \<open>DumpResponse b\<close> are the calls of
  \<^verbatim>\<open>httputil.DumpRequest(r, b)\<close> and \<^verbatim>\<open>httputil.DumpResponse(res, b)\<close>: with \<open>b\<close> true the
  library reads the whole body into memory for the dump. \<open>Go_transfer from to\<close> is
  \<^verbatim>\<open>go transfer(from, to)\<close>, where \<open>None\<close> is the nil connection.
\<close>

datatype event =
    DumpRequest bool
  | DumpResponse bool
  | DialTimeout string string int
  | RoundTrip
  | Hijack
  | Go_transfer "conn option" "conn option"

text \<open>
  The answers of the surroundings to one request: the error of each library call that can
  fail (\<open>None\<close> for \<^verbatim>\<open>err == nil\<close>), whether the writer is an \<^verbatim>\<open>http.Hijacker\<close>, the response
  of the round trip with the map objects as they are when it returns, the orders the two
  \<^verbatim>\<open>range\<close> loops over a header map take, and the steps the filter's goroutines have taken
  when \<^verbatim>\<open>copyHeader\<close> reads the map.
\<close>

record env =
  logRequest_err :: "string option"
  DumpRequest_err :: "string option"
  Dial_err :: "string option"
  Hijacker :: bool
  Hijack_err :: "string option"
  RoundTrip_res :: "string + response"
  res_maps :: store
  DumpResponse_err :: "string option"
  DumpResponse_final_err :: "string option"
  filter_order :: "string list"
  filter_sched :: "goroutine list"
  copy_order :: "string list"

definition handleTunnel :: "env \<Rightarrow> request \<Rightarrow> ResponseWriter \<Rightarrow> ResponseWriter \<times> event list" where
  "handleTunnel e r w =
     (let tr = [DumpRequest True]
      in case DumpRequest_err e of
           Some err \<Rightarrow> (Error w err StatusInternalServerError, tr)
         | None \<Rightarrow>
             (let tr = tr @ [DialTimeout ''tcp'' (Host r) (TIMEOUT_MS * Millisecond)]
              in case Dial_err e of
                   Some err \<Rightarrow> (Error w err StatusServiceUnavailable, tr)
                 | None \<Rightarrow>
                     (let w = WriteHeader w StatusOK
                      in if \<not> Hijacker e
                         then (Error w ''Tunneling (hijacking) not supported''
                                 StatusInternalServerError, tr)
                         else
                           (let tr = tr @ [Hijack];
                                (client, w) =
                                  (case Hijack_err e of
                                     Some err \<Rightarrow> (None, Error w err StatusServiceUnavailable)
                                   | None \<Rightarrow> (Some clientConn, w))
                            in (w, tr @ [Go_transfer client (Some destConn),
                                         Go_transfer (Some destConn) client])))))"

text \<open>
  \<^verbatim>\<open>copyHeader(from, to)\<close>: every value of every key of \<open>from\<close>, in order, is added to
  \<open>to\<close>. It reads the map of \<open>from\<close> as it is when it runs.
\<close>

definition copyHeader :: "header \<Rightarrow> string list \<Rightarrow> header \<Rightarrow> header" where
  "copyHeader from order to =
     fold (\<lambda>k to. case from k of
                     None \<Rightarrow> to
                   | Some headers \<Rightarrow> fold (\<lambda>header to. Add to k header) headers to)
          order to"

text \<open>
  The handler \<^verbatim>\<open>getHTTPHandler(conf)\<close> returns. A response body is identified with the
  bytes it yields, which \<^verbatim>\<open>io.Copy(w, finalRes.Body)\<close> writes to the client; the two dumps
  leave these bytes as they are.
\<close>

definition getHTTPHandler :: "config \<Rightarrow> env \<Rightarrow> request \<Rightarrow> ResponseWriter \<Rightarrow> ResponseWriter \<times> event list" where
  "getHTTPHandler conf e r w =
     (let tr = [DumpRequest (logRequestBody conf)]
      in case DumpRequest_err e of
           Some err \<Rightarrow> (Error w err StatusInternalServerError, tr)
         | None \<Rightarrow>
             (let tr = tr @ [RoundTrip]
              in case RoundTrip_res e of
                   Inl err \<Rightarrow> (Error w err StatusServiceUnavailable, tr)
                 | Inr res \<Rightarrow>
                     (let tr = tr @ [DumpResponse (logResponseBody conf)]
                      in case DumpResponse_err e of
                           Some err \<Rightarrow> (Error w err StatusInternalServerError, tr)
                         | None \<Rightarrow>
                             (let (finalRes, goroutines) =
                                    filterResponse (res_maps e) (filter_order e) res;
                                  tr = tr @ [DumpResponse (logResponseBody conf)]
                              in case DumpResponse_final_err e of
                                   Some err \<Rightarrow> (Error w err StatusInternalServerError, tr)
                                 | None \<Rightarrow>
                                     (let from = maps (exec (filter_sched e) goroutines) (Header finalRes);
                                          w = w\<lparr>w_Header := copyHeader from (copy_order e) (w_Header w)\<rparr>;
                                          w = WriteHeader w (StatusCode finalRes)
                                      in (Write w (Body finalRes), tr))))))"

text \<open>
  \<^verbatim>\<open>logRequest(r, withBody)\<close> dumps the request for the log; its caller drops the error.
\<close>

definition logRequest :: "env \<Rightarrow> bool \<Rightarrow> event list \<times> string option" where
  "logRequest e withBody = ([DumpRequest withBody], logRequest_err e)"

text \<open>
  The server's handler in \<^verbatim>\<open>run\<close>: log the request, then tunnel a \<^verbatim>\<open>CONNECT\<close> and relay
  any other method.
\<close>

definition MethodConnect :: string where "MethodConnect = ''CONNECT''"

definition ServeHTTP :: "config \<Rightarrow> env \<Rightarrow> request \<Rightarrow> ResponseWriter \<Rightarrow> ResponseWriter \<times> event list" where
  "ServeHTTP conf e r w =
     (let tr = fst (logRequest e (logRequestBody conf));
          res = (if Method r = MethodConnect then handleTunnel e r w
                 else getHTTPHandler conf e r w)
      in (fst res, tr @ snd res))"

text \<open>A writer nothing has been written to.\<close>

definition new_writer :: ResponseWriter where
  "new_writer = \<lparr>w_Header = Map.empty, w_sent = None, w_body = []\<rparr>"

section \<open>Concrete inputs\<close>

text \<open>A store whose map object at address 0 is the given header mapping.\<close>

definition headers_at0 :: "header \<Rightarrow> store" where
  "headers_at0 hm = (\<lambda>a. Map.empty)(0 := hm)"

text \<open>A response with status 200 and body \<open>hello\<close> whose header map is the object at address 0.\<close>

definition resp200 :: response where
  "resp200 = \<lparr>StatusCode = 200, Header = 0, Body = ''hello''\<rparr>"

text \<open>The schedule that lets the three goroutines take one step each, \<open>n\<close> times over.\<close>

definition round_robin :: "nat \<Rightarrow> goroutine list" where
  "round_robin n = concat (replicate n [Producer, Filter, Consumer])"

text \<open>
  Surroundings in which every library call succeeds; the destination answers with
  \<open>resp200\<close> and the one header \<open>Content-Type: text/html\<close>.
\<close>

definition ok_env :: env where
  "ok_env = \<lparr>logRequest_err = None, DumpRequest_err = None, Dial_err = None, Hijacker = True,
             Hijack_err = None, RoundTrip_res = Inr resp200,
             res_maps = headers_at0 [''Content-Type'' \<mapsto> [''text/html'']],
             DumpResponse_err = None, DumpResponse_final_err = None,
             filter_order = [''Content-Type''], filter_sched = round_robin 6,
             copy_order = [''Content-Type'']\<rparr>"

definition connect_req :: request where
  "connect_req = \<lparr>Method = ''CONNECT'', Host = ''example.com:443''\<rparr>"

definition get_req :: request where
  "get_req = \<lparr>Method = ''GET'', Host = ''example.com''\<rparr>"

text \<open>A source that yields \<open>ping\<close> and then ends, and a destination whose writes all succeed.\<close>

definition ping_reader :: reader where
  "ping_reader i = (if i = 0 then (''ping'', More) else ([], EOF))"

definition good_writer :: writer where
  "good_writer i = None"

section \<open>Predicates on runs\<close>

fun is_Go_transfer :: "event \<Rightarrow> bool" where
  "is_Go_transfer (Go_transfer a b) = True"
| "is_Go_transfer ev = False"


text \<open>
  A trace keeps body capture behind the configuration when a dump with the body occurs
  only under the flag for it.
\<close>

definition body_capture_gated :: "config \<Rightarrow> event list \<Rightarrow> bool" where
  "body_capture_gated conf tr \<longleftrightarrow>
     (DumpRequest True \<in> set tr \<longrightarrow> logRequestBody conf) \<and>
     (DumpResponse True \<in> set tr \<longrightarrow> logResponseBody conf)"

text \<open>
  The entries on their way through the pipeline, for the invariant of the filter: keys
  are in canonical form, and past the filter no key is a denied one.
\<close>

definition canonical_entry :: "headerEntry option \<Rightarrow> bool" where
  "canonical_entry eo = (case eo of None \<Rightarrow> True | Some e \<Rightarrow> CanonicalHeaderKey (key e) = key e)"

definition retained_entry :: "strset \<Rightarrow> headerEntry option \<Rightarrow> bool" where
  "retained_entry u eo = (case eo of None \<Rightarrow> True | Some e \<Rightarrow> CanonicalHeaderKey (key e) = key e \<and> \<not> has u (key e))"

definition in_flight_ok :: "pipeline \<Rightarrow> bool" where
  "in_flight_ok s \<longleftrightarrow>
     list_all (\<lambda>k. CanonicalHeaderKey k = k) (range_keys s) \<and>
     canonical_entry (slot (headerCh s)) \<and>
     retained_entry (unwantedHeaders s) (slot (filteredHeaderCh s)) \<and>
     retained_entry (unwantedHeaders s) (cur_h s)"

section \<open>Properties of the header filter\<close>

lemma Add_other: "CanonicalHeaderKey k' \<noteq> k \<Longrightarrow> Add hm k' v k = hm k"
  by (simp add: Add_def Let_def)


lemma step_response_var [simp]: "response_var (step g s) = response_var s"
  by (cases g) (auto simp: Let_def split: option.splits list.splits)

lemma step_filteredRes_var [simp]: "filteredRes_var (step g s) = filteredRes_var s"
  by (cases g) (auto simp: Let_def split: option.splits list.splits)

lemma step_unwantedHeaders [simp]: "unwantedHeaders (step g s) = unwantedHeaders s"
  by (cases g) (auto simp: Let_def split: option.splits list.splits)



lemma exec_filteredRes_var [simp]: "filteredRes_var (exec gs s) = filteredRes_var s"
  by (induction gs arbitrary: s) auto

lemma exec_response_var [simp]: "response_var (exec gs s) = response_var s"
  by (induction gs arbitrary: s) auto

lemma exec_unwantedHeaders [simp]: "unwantedHeaders (exec gs s) = unwantedHeaders s"
  by (induction gs arbitrary: s) auto



lemma step_in_flight_ok: "in_flight_ok s \<Longrightarrow> in_flight_ok (step g s)"
  by (cases g)
     (auto simp: in_flight_ok_def canonical_entry_def retained_entry_def withoutHeaders_def Let_def
           split: option.splits list.splits if_splits)

lemma Add_canonical_other:
  "CanonicalHeaderKey k' = k' \<Longrightarrow> has u d \<Longrightarrow> \<not> has u k' \<Longrightarrow> Add hm k' v d = hm d"
  by (rule Add_other) auto

lemma step_denied_unchanged:
  "in_flight_ok s \<Longrightarrow> has (unwantedHeaders s) d \<Longrightarrow> maps (step g s) a d = maps s a d"
  by (cases g)
     (auto simp: in_flight_ok_def retained_entry_def Let_def Add_canonical_other
           split: option.splits list.splits)

lemma exec_denied_unchanged:
  "in_flight_ok s \<Longrightarrow> has (unwantedHeaders s) d \<Longrightarrow> maps (exec gs s) a d = maps s a d"
  by (induction gs arbitrary: s) (auto simp: step_in_flight_ok step_denied_unchanged)

lemma filterResponse_in_flight_ok:
  "list_all (\<lambda>k. CanonicalHeaderKey k = k) order \<Longrightarrow> in_flight_ok (snd (filterResponse st order r))"
  by (simp add: filterResponse_def in_flight_ok_def canonical_entry_def retained_entry_def make_chan_def Let_def)

lemma has_Cookie: "has (unwantedHeaders (snd (filterResponse st order r))) ''Cookie''"
  by (simp add: filterResponse_def Let_def insert_set_def newSet_def has_def)

lemma canonical_Cookie: "CanonicalHeaderKey ''Cookie'' = ''Cookie''"
  by code_simp

lemma denied_key_survives:
  "list_all (\<lambda>k. CanonicalHeaderKey k = k) order \<Longrightarrow>
   filtered_header st order r sched ''Cookie'' = st (Header r) ''Cookie''"
  using exec_denied_unchanged [OF filterResponse_in_flight_ok has_Cookie, where gs = sched and a = "Header r" and st1 = st and r1 = r]
  by (simp add: filtered_header_def Let_def) (simp add: filterResponse_def Let_def)

lemma canonical_Content_Type: "CanonicalHeaderKey ''Content-Type'' = ''Content-Type''"
  by code_simp

lemma canonical_Accept: "CanonicalHeaderKey ''Accept'' = ''Accept''"
  by code_simp

section \<open>Properties of the handlers\<close>






lemma getHTTPHandler_success:
  assumes "DumpRequest_err e = None" and "RoundTrip_res e = Inr res"
    and "DumpResponse_err e = None" and "DumpResponse_final_err e = None"
  shows "getHTTPHandler conf e r w =
     (Write (WriteHeader
        (w\<lparr>w_Header := copyHeader
             (filtered_header (res_maps e) (filter_order e) res (filter_sched e))
             (copy_order e) (w_Header w)\<rparr>)
        (StatusCode res)) (Body res),
      [DumpRequest (logRequestBody conf), RoundTrip,
       DumpResponse (logResponseBody conf), DumpResponse (logResponseBody conf)])"
  using assms
  by (simp add: getHTTPHandler_def filtered_header_def filterResponse_def Let_def)

lemma handleTunnel_established:
  "DumpRequest_err e = None \<Longrightarrow> Dial_err e = None \<Longrightarrow> Hijacker e \<Longrightarrow> Hijack_err e = None \<Longrightarrow>
   snd (handleTunnel e r w) =
     [DumpRequest True, DialTimeout ''tcp'' (Host r) (TIMEOUT_MS * Millisecond), Hijack,
      Go_transfer (Some clientConn) (Some destConn),
      Go_transfer (Some destConn) (Some clientConn)]"
  by (simp add: handleTunnel_def Let_def)

lemma handleTunnel_trace:
  "\<exists>tr. snd (handleTunnel e r w) = DumpRequest True # tr \<and> (\<forall>b. DumpResponse b \<notin> set tr)"
  by (auto simp: handleTunnel_def Let_def split: option.splits prod.splits)

lemma getHTTPHandler_trace:
  "ev \<in> set (snd (getHTTPHandler conf e r w)) \<Longrightarrow>
     ev = DumpRequest (logRequestBody conf) \<or> ev = RoundTrip \<or> ev = DumpResponse (logResponseBody conf)"
  by (auto simp: getHTTPHandler_def Let_def split: option.splits prod.splits sum.splits)

section \<open>Properties of the byte copy\<close>

lemma copy_from_returns:
  "snd (src (i + d)) \<noteq> More \<or> (fst (src (i + d)) \<noteq> [] \<and> dst (i + d) \<noteq> None) \<Longrightarrow>
   \<exists>chunks. copy_from src dst i acc = Some chunks"
proof (induction d arbitrary: i acc)
  case 0
  then show ?case
    by (subst copy_from.simps) (auto simp: Let_def split: prod.splits option.splits)
next
  case (Suc d)
  from Suc.prems have "snd (src (Suc i + d)) \<noteq> More \<or>
      (fst (src (Suc i + d)) \<noteq> [] \<and> dst (Suc i + d) \<noteq> None)"
    by simp
  from Suc.IH [OF this] show ?case
    by (subst copy_from.simps) (auto simp: Let_def split: prod.splits option.splits)
qed

lemma copy_from_all:
  "snd (src (i + d)) \<noteq> More \<Longrightarrow> \<forall>j<d. snd (src (i + j)) = More \<Longrightarrow> \<forall>j. dst j = None \<Longrightarrow>
   \<exists>chunks. copy_from src dst i acc = Some chunks \<and>
            concat chunks = concat acc @ concat (map (\<lambda>j. fst (src j)) [i..<Suc (i + d)])"
proof (induction d arbitrary: i acc)
  case 0
  then show ?case
    by (subst copy_from.simps) (auto simp: Let_def split: prod.splits option.splits)
next
  case (Suc d)
  have more: "snd (src i) = More" using Suc.prems(2) [rule_format, of 0] by simp
  have 1: "snd (src (Suc i + d)) \<noteq> More" using Suc.prems(1) by simp
  have 2: "\<forall>j<d. snd (src (Suc i + j)) = More"
    using Suc.prems(2) by (metis Suc_less_eq add_Suc_right add_Suc)
  let ?acc = "if fst (src i) \<noteq> [] then acc @ [fst (src i)] else acc"
  from Suc.IH [OF 1 2 Suc.prems(3), of ?acc] obtain chunks where
    c: "copy_from src dst (Suc i) ?acc = Some chunks"
       "concat chunks = concat ?acc @ concat (map (\<lambda>j. fst (src j)) [Suc i..<Suc (Suc i + d)])"
    by blast
  have unfold: "copy_from src dst i acc = copy_from src dst (Suc i) ?acc"
    using more Suc.prems(3)
    by (subst copy_from.simps) (auto simp: Let_def split: prod.splits)
  have "[i..<Suc (i + Suc d)] = i # [Suc i..<Suc (Suc i + d)]"
    by (simp add: upt_conv_Cons)
  with c unfold show ?case by auto
qed

section \<open>Evaluations of the filter\<close>

lemma drained_Content_Type:
  "filtered_header (headers_at0 [''Content-Type'' \<mapsto> [''text/html'']]) [''Content-Type'']
     resp200 (round_robin 6) ''Content-Type'' = Some [''text/html'', ''text/html'']"
  by code_simp

lemma partial_Accept:
  "filtered_header (headers_at0 [''Accept'' \<mapsto> [''x'', ''y'']]) [''Accept''] resp200
     [Producer, Filter, Consumer, Consumer] ''Accept'' = Some [''x'', ''y'', ''x'']"
  by code_simp


section \<open>The claims\<close>

text \<open>
  C1. The spec: the header filter returns exactly the entries whose key is not denied,
  every denied key absent. The code does not: the filter adds into the map object of its
  input and deletes nothing. For the response of the spec's own scenario (status 200,
  header \<open>Cookie: a=b\<close>, body \<open>hello\<close>), under every schedule of the goroutines the
  mapping of the returned response still holds \<open>Cookie: a=b\<close>, and the relay hands
  that header to the client.
\<close>

theorem filterResponse_keeps_Cookie:
  "filtered_header (headers_at0 [''Cookie'' \<mapsto> [''a=b'']]) [''Cookie''] resp200 sched ''Cookie''
     = Some [''a=b''] \<and>
   client_values (fst (getHTTPHandler defaultConfig
       (ok_env\<lparr>res_maps := headers_at0 [''Cookie'' \<mapsto> [''a=b'']],
               filter_order := [''Cookie''], copy_order := [''Cookie''],
               filter_sched := sched\<rparr>)
       get_req new_writer)) ''Cookie''
     = Some [''a=b'']"
proof -
  let ?e = "ok_env\<lparr>res_maps := headers_at0 [''Cookie'' \<mapsto> [''a=b'']],
               filter_order := [''Cookie''], copy_order := [''Cookie''],
               filter_sched := sched\<rparr>"
  have "list_all (\<lambda>k. CanonicalHeaderKey k = k) [''Cookie'']"
    by (simp add: canonical_Cookie)
  from denied_key_survives [OF this]
  have kept: "filtered_header (headers_at0 [''Cookie'' \<mapsto> [''a=b'']]) [''Cookie''] resp200 sched
      ''Cookie'' = Some [''a=b'']"
    by (simp add: headers_at0_def resp200_def)
  have ok: "DumpRequest_err ?e = None" "RoundTrip_res ?e = Inr resp200"
    "DumpResponse_err ?e = None" "DumpResponse_final_err ?e = None"
    by (simp_all add: ok_env_def)
  show ?thesis
    unfolding getHTTPHandler_success [OF ok]
    by (simp add: kept)
       (simp add: client_values_def WriteHeader_def Write_def new_writer_def copyHeader_def
          kept Add_def canonical_Cookie)
qed

text \<open>
  C2. The spec: filtering twice equals filtering once. The code does not: for the header
  \<open>Accept: x\<close>, a filter run to the end leaves \<open>Accept: x, x\<close>, and a second run, on
  the response and the store the first one left, leaves \<open>Accept: x, x, x, x\<close>.
\<close>

theorem filterResponse_twice_differs:
  "filtered_header (headers_at0 [''Accept'' \<mapsto> [''x'']]) [''Accept''] resp200 (round_robin 6) ''Accept''
     = Some [''x'', ''x''] \<and>
   filtered_header
     (maps (exec (round_robin 6)
        (snd (filterResponse (headers_at0 [''Accept'' \<mapsto> [''x'']]) [''Accept''] resp200))))
     [''Accept'']
     (fst (filterResponse (headers_at0 [''Accept'' \<mapsto> [''x'']]) [''Accept''] resp200))
     (round_robin 6) ''Accept''
     = Some [''x'', ''x'', ''x'', ''x'']"
  by code_simp

text \<open>
  C3. The spec: the filter has completed when control returns to the relay, and no caller
  sees a partly filtered mapping. The code does not wait: at the \<^verbatim>\<open>return\<close> of
  \<^verbatim>\<open>filterResponse\<close> the goroutines have not drained, and when \<^verbatim>\<open>copyHeader\<close> reads the
  map after four of their steps the client receives \<open>Accept: x, y, x\<close> for the
  destination's \<open>Accept: x, y\<close>.
\<close>

theorem filterResponse_returns_undrained:
  "\<not> drained (snd (filterResponse (headers_at0 [''Accept'' \<mapsto> [''x'', ''y'']]) [''Accept''] resp200)) \<and>
   client_values (fst (getHTTPHandler defaultConfig
       (ok_env\<lparr>res_maps := headers_at0 [''Accept'' \<mapsto> [''x'', ''y'']],
               filter_order := [''Accept''], copy_order := [''Accept''],
               filter_sched := [Producer, Filter, Consumer, Consumer]\<rparr>)
       get_req new_writer)) ''Accept''
     = Some [''x'', ''y'', ''x'']"
proof -
  let ?e = "ok_env\<lparr>res_maps := headers_at0 [''Accept'' \<mapsto> [''x'', ''y'']],
               filter_order := [''Accept''], copy_order := [''Accept''],
               filter_sched := [Producer, Filter, Consumer, Consumer]\<rparr>"
  have ok: "DumpRequest_err ?e = None" "RoundTrip_res ?e = Inr resp200"
    "DumpResponse_err ?e = None" "DumpResponse_final_err ?e = None"
    by (simp_all add: ok_env_def)
  have undrained: "\<not> drained (snd (filterResponse (headers_at0 [''Accept'' \<mapsto> [''x'', ''y'']])
      [''Accept''] resp200))"
    by (simp add: drained_def filterResponse_def Let_def)
  show ?thesis
    unfolding getHTTPHandler_success [OF ok]
    by (simp add: undrained)
       (simp add: client_values_def WriteHeader_def Write_def new_writer_def copyHeader_def
          partial_Accept Add_def canonical_Accept)
qed

text \<open>
  C4. The spec: when the dial succeeds and the writer cannot be hijacked, the client
  receives status 500 and no tunnel is made. The code has sent status 200 before it asks
  for the hijacker, so the 500 of \<^verbatim>\<open>http.Error\<close> comes too late: the client receives 200
  with the error text as body. No connection is hijacked and no byte copy is started.
\<close>

theorem tunnel_without_hijacker_sends_200:
  "client_status (fst (handleTunnel (ok_env\<lparr>Hijacker := False\<rparr>) connect_req new_writer)) = Some 200 \<and>
   w_body (fst (handleTunnel (ok_env\<lparr>Hijacker := False\<rparr>) connect_req new_writer))
     = ''Tunneling (hijacking) not supported'' @ [CHR 0x0A] \<and>
   snd (handleTunnel (ok_env\<lparr>Hijacker := False\<rparr>) connect_req new_writer) =
     [DumpRequest True, DialTimeout ''tcp'' ''example.com:443'' 5000000000]"
  by code_simp

text \<open>
  C5. The spec: when \<^verbatim>\<open>Hijack\<close> fails, the handler answers 503 and starts no byte copy.
  The code does not return after \<^verbatim>\<open>http.Error\<close>: the status the client has is the 200
  sent before, and both \<^verbatim>\<open>transfer\<close> goroutines are started, with the nil connection
  as the client's end.
\<close>

theorem tunnel_failed_hijack_starts_transfers:
  "client_status (fst (handleTunnel (ok_env\<lparr>Hijack_err := Some ''hijack failed''\<rparr>)
      connect_req new_writer)) = Some 200 \<and>
   snd (handleTunnel (ok_env\<lparr>Hijack_err := Some ''hijack failed''\<rparr>) connect_req new_writer) =
     [DumpRequest True, DialTimeout ''tcp'' ''example.com:443'' 5000000000, Hijack,
      Go_transfer None (Some destConn), Go_transfer (Some destConn) None]"
  by code_simp



text \<open>
  C7. The spec: a response without a denied header reaches the client with status, body
  and headers unchanged. Status and body do; the headers need not: for the destination's
  one header \<open>Content-Type: text/html\<close>, when the goroutines of the filter have run
  to the end before \<^verbatim>\<open>copyHeader\<close> reads the map, the client receives
  \<open>Content-Type: text/html, text/html\<close>.
\<close>

theorem relay_duplicates_headers:
  "client_status (fst (getHTTPHandler defaultConfig ok_env get_req new_writer)) = Some 200 \<and>
   w_body (fst (getHTTPHandler defaultConfig ok_env get_req new_writer)) = ''hello'' \<and>
   res_maps ok_env 0 ''Content-Type'' = Some [''text/html''] \<and>
   res_maps ok_env 0 ''Cookie'' = None \<and>
   client_values (fst (getHTTPHandler defaultConfig ok_env get_req new_writer)) ''Content-Type''
     = Some [''text/html'', ''text/html'']"
proof -
  have ok: "DumpRequest_err ok_env = None" "RoundTrip_res ok_env = Inr resp200"
    "DumpResponse_err ok_env = None" "DumpResponse_final_err ok_env = None"
    by (simp_all add: ok_env_def)
  have env: "res_maps ok_env = headers_at0 [''Content-Type'' \<mapsto> [''text/html'']]"
    "filter_order ok_env = [''Content-Type'']" "filter_sched ok_env = round_robin 6"
    "copy_order ok_env = [''Content-Type'']"
    by (simp_all add: ok_env_def)
  have res: "StatusCode resp200 = 200" "Body resp200 = ''hello''"
    by (simp_all add: resp200_def)
  have orig: "res_maps ok_env 0 ''Content-Type'' = Some [''text/html'']"
    "res_maps ok_env 0 ''Cookie'' = None"
    by (simp_all add: ok_env_def headers_at0_def)
  show ?thesis
    unfolding getHTTPHandler_success [OF ok]
    by (simp add: orig)
       (simp add: env res client_status_def client_values_def WriteHeader_def Write_def
          new_writer_def copyHeader_def drained_Content_Type Add_def canonical_Content_Type)
qed

text \<open>
  C8. A \<^verbatim>\<open>transfer\<close> whose source reports end-of-stream or an error at some read, or whose
  destination fails a write, returns: it has written chunks to its destination and then
  closed its source and its destination, each once. When the source ends at read \<open>n\<close>
  and no write fails, the bytes written are the bytes read. An established tunnel starts
  exactly the two transfers, client to destination and destination to client.
\<close>

theorem transfer_closes_both_ends_once:
  assumes "snd (src n) \<noteq> More \<or> (fst (src n) \<noteq> [] \<and> dst n \<noteq> None)"
  shows "(\<exists>chunks. transfer from to src dst =
            Some (map (Wrote to) chunks @ [Closed from, Closed to]) \<and>
          (snd (src n) \<noteq> More \<and> (\<forall>j<n. snd (src j) = More) \<and> (\<forall>j. dst j = None) \<longrightarrow>
             concat chunks = concat (map (\<lambda>j. fst (src j)) [0..<Suc n]))) \<and>
         (DumpRequest_err e = None \<and> Dial_err e = None \<and> Hijacker e \<and> Hijack_err e = None \<longrightarrow>
            filter is_Go_transfer (snd (handleTunnel e r w)) =
              [Go_transfer (Some clientConn) (Some destConn),
               Go_transfer (Some destConn) (Some clientConn)])"
proof -
  from copy_from_returns [of src 0 n dst "[]"] assms
  obtain chunks where c: "copy_from src dst 0 [] = Some chunks" by auto
  have "concat chunks = concat (map (\<lambda>j. fst (src j)) [0..<Suc n])"
    if "snd (src n) \<noteq> More" "\<forall>j<n. snd (src j) = More" "\<forall>j. dst j = None"
    using copy_from_all [of src 0 n dst "[]"] that c by auto
  with c have "\<exists>chunks. transfer from to src dst =
            Some (map (Wrote to) chunks @ [Closed from, Closed to]) \<and>
          (snd (src n) \<noteq> More \<and> (\<forall>j<n. snd (src j) = More) \<and> (\<forall>j. dst j = None) \<longrightarrow>
             concat chunks = concat (map (\<lambda>j. fst (src j)) [0..<Suc n]))"
    by (auto simp: transfer_def io_Copy_def)
  then show ?thesis
    by (simp add: handleTunnel_established)
qed

theorem transfer_closes_both_ends_once_witness:
  "snd (ping_reader 1) \<noteq> More \<and>
   (\<exists>chunks. transfer clientConn destConn ping_reader good_writer =
       Some (map (Wrote destConn) chunks @ [Closed clientConn, Closed destConn]) \<and>
       concat chunks = ''ping'') \<and>
   filter is_Go_transfer (snd (handleTunnel ok_env connect_req new_writer)) =
     [Go_transfer (Some clientConn) (Some destConn), Go_transfer (Some destConn) (Some clientConn)]"
proof -
  have h: "snd (ping_reader 1) \<noteq> More \<or> (fst (ping_reader 1) \<noteq> [] \<and> good_writer 1 \<noteq> None)"
    by (simp add: ping_reader_def)
  have l: "[0..<Suc 1] = [0, 1]" by (simp add: upt_conv_Cons)
  show ?thesis
    using transfer_closes_both_ends_once [of ping_reader 1 good_writer clientConn destConn
        ok_env connect_req new_writer] h
    by (simp add: ping_reader_def good_writer_def ok_env_def l)
qed

text \<open>
  C9, as the spec states it: on every path a body is captured for the log only under its
  configuration flag. It fails on the tunnel path: with the default configuration, whose
  flags are off, a \<^verbatim>\<open>CONNECT\<close> request is dumped with its body.
\<close>

theorem tunnel_dump_ignores_config:
  "\<not> body_capture_gated defaultConfig (snd (ServeHTTP defaultConfig ok_env connect_req new_writer))"
  by code_simp

text \<open>
  C9, amended. For every request that is not a \<^verbatim>\<open>CONNECT\<close>, a dump with the body occurs
  only under the flag for it. For a \<^verbatim>\<open>CONNECT\<close> the server's own log call is under the
  flag, the tunnel handler then dumps the request with its body whatever the
  configuration, and no response is dumped.
\<close>

theorem body_capture_gated_on_relay_only:
  "(Method r \<noteq> MethodConnect \<longrightarrow> body_capture_gated conf (snd (ServeHTTP conf e r w))) \<and>
   (Method r = MethodConnect \<longrightarrow>
      take 2 (snd (ServeHTTP conf e r w)) = [DumpRequest (logRequestBody conf), DumpRequest True] \<and>
      (\<forall>b. DumpResponse b \<notin> set (snd (ServeHTTP conf e r w))))"
proof (intro conjI impI)
  assume "Method r \<noteq> MethodConnect"
  then have tr: "snd (ServeHTTP conf e r w) =
      DumpRequest (logRequestBody conf) # snd (getHTTPHandler conf e r w)"
    by (simp add: ServeHTTP_def logRequest_def Let_def)
  show "body_capture_gated conf (snd (ServeHTTP conf e r w))"
    unfolding body_capture_gated_def tr
    using getHTTPHandler_trace [of "DumpRequest True" conf e r w]
          getHTTPHandler_trace [of "DumpResponse True" conf e r w]
    by auto
next
  assume c: "Method r = MethodConnect"
  obtain tr where tr: "snd (handleTunnel e r w) = DumpRequest True # tr"
      "\<forall>b. DumpResponse b \<notin> set tr"
    using handleTunnel_trace by blast
  from c have s: "snd (ServeHTTP conf e r w) = DumpRequest (logRequestBody conf) # snd (handleTunnel e r w)"
    by (simp add: ServeHTTP_def logRequest_def Let_def)
  show "take 2 (snd (ServeHTTP conf e r w)) = [DumpRequest (logRequestBody conf), DumpRequest True]"
    by (simp add: s tr)
  show "\<forall>b. DumpResponse b \<notin> set (snd (ServeHTTP conf e r w))"
    using tr by (simp add: s)
qed

theorem body_capture_gated_on_relay_only_witness:
  "Method get_req \<noteq> MethodConnect \<and> Method connect_req = MethodConnect \<and>
   body_capture_gated defaultConfig (snd (ServeHTTP defaultConfig ok_env get_req new_writer)) \<and>
   take 2 (snd (ServeHTTP defaultConfig ok_env connect_req new_writer)) =
     [DumpRequest False, DumpRequest True] \<and>
   DumpResponse True \<notin> set (snd (ServeHTTP defaultConfig ok_env connect_req new_writer))"
  using body_capture_gated_on_relay_only [of get_req defaultConfig ok_env new_writer]
        body_capture_gated_on_relay_only [of connect_req defaultConfig ok_env new_writer]
  by (simp add: get_req_def connect_req_def MethodConnect_def defaultConfig_def)



end
